theory Spec2Isabelle
  imports
    Complex_Main
    "HOL-Library.AList"
    "HOL-Library.Char_ord"
    "HOL-Library.List_Lexorder"
begin

section \<open>Evaluation harness of the video-to-blog prototype\<close>

text \<open>
  The development embeds the metric library, the output resolver and the aggregator of
  \<^verbatim>\<open>run_evals.py\<close>, the dataset store of \<^verbatim>\<open>prepare_dataset.py\<close> and the tone
  handling of \<^verbatim>\<open>summarizer.py\<close>.

  Conventions of the embedding.
  \<^item> A Python \<^verbatim>\<open>str\<close> is a \<^typ>\<open>string\<close> of ASCII characters; \<^verbatim>\<open>isalnum\<close>,
    \<^verbatim>\<open>lower\<close>, \<^verbatim>\<open>split\<close>, \<^verbatim>\<open>strip\<close> and \<^verbatim>\<open>splitlines\<close> are the ASCII
    restrictions of the Python methods.
  \<^item> A Python \<^verbatim>\<open>float\<close> is the rational number it denotes: \<^verbatim>\<open>/\<close> is exact division
    and \<^verbatim>\<open>round(x, 4)\<close> rounds the exact value to four decimals, a tie going to the even
    neighbour as Python does. Binary representation error is outside the model.
  \<^item> A \<^verbatim>\<open>dict\<close> whose keys vary is an association list in insertion order, read with
    \<^const>\<open>map_of\<close> and written with \<^const>\<open>AList.update\<close>.
  \<^item> Every \<^verbatim>\<open>raise\<close> is an \<open>Inl\<close> of the type \<open>error\<close>.
\<close>

subsection \<open>Errors\<close>

datatype error =
    ZeroDivisionError
  | StatisticsError
  | RuntimeError string
  | TypeError string
  | KeyError string
  | FileNotFoundError string
  | SystemExit string

subsection \<open>ASCII text primitives\<close>

definition isalnum :: "char \<Rightarrow> bool" where
  "isalnum ch =
     (let n = (of_char ch :: nat)
      in (48 \<le> n \<and> n \<le> 57) \<or> (65 \<le> n \<and> n \<le> 90) \<or> (97 \<le> n \<and> n \<le> 122))"

definition lower :: "char \<Rightarrow> char" where
  "lower ch =
     (let n = (of_char ch :: nat)
      in if 65 \<le> n \<and> n \<le> 90 then char_of (n + 32) else ch)"

definition isspace :: "char \<Rightarrow> bool" where
  "isspace ch =
     (let n = (of_char ch :: nat)
      in (9 \<le> n \<and> n \<le> 13) \<or> (28 \<le> n \<and> n \<le> 32))"

text \<open>
  \<open>split_by sep cur text\<close> cuts \<open>text\<close> at the characters satisfying \<open>sep\<close> and keeps
  the non-empty pieces; \<open>cur\<close> is the piece being read. With \<^const>\<open>isspace\<close> it is
  \<^verbatim>\<open>str.split()\<close> without arguments.
\<close>

fun split_by :: "(char \<Rightarrow> bool) \<Rightarrow> string \<Rightarrow> string \<Rightarrow> string list" where
  "split_by sep cur [] = (if cur = [] then [] else [cur])"
| "split_by sep cur (ch # rest) =
     (if sep ch then (if cur = [] then split_by sep [] rest else cur # split_by sep [] rest)
      else split_by sep (cur @ [ch]) rest)"

definition str_split :: "string \<Rightarrow> string list" where
  "str_split text = split_by isspace [] text"

definition str_lower :: "string \<Rightarrow> string" where
  "str_lower text = map lower text"

subsection \<open>Tokens\<close>

definition STOPWORDS :: "string set" where
  "STOPWORDS = set [''a'', ''an'', ''and'', ''are'', ''as'', ''be'', ''but'', ''for'', ''from'',
     ''in'', ''is'', ''it'', ''of'', ''on'', ''or'', ''that'', ''the'', ''to'', ''with'', ''you'',
     ''your'', ''this'', ''we'']"

definition tokenize :: "string \<Rightarrow> string list" where
  "tokenize text =
     (let clean = map (\<lambda>ch. if isalnum ch then lower ch else CHR '' '') text
      in filter (\<lambda>tok. tok \<noteq> [] \<and> tok \<notin> STOPWORDS) (str_split clean))"

subsection \<open>Numbers\<close>

definition truediv :: "nat \<Rightarrow> nat \<Rightarrow> error + rat" where
  "truediv a b = (if b = 0 then Inl ZeroDivisionError else Inr (of_nat a / of_nat b))"

definition round4 :: "rat \<Rightarrow> rat" where
  "round4 x =
     (let y = x * 10000;
          f = \<lfloor>y\<rfloor>;
          d = y - of_int f;
          k = (if d < 1 / 2 then f else if 1 / 2 < d then f + 1 else if even f then f else f + 1)
      in of_int k / 10000)"

subsection \<open>Lexical metrics\<close>

definition keyword_recall :: "string \<Rightarrow> string \<Rightarrow> error + rat" where
  "keyword_recall reference generated =
     (let ref_tokens = set (filter (\<lambda>tok. length tok > 4) (tokenize reference))
      in if ref_tokens = {} then Inr 0
         else
           let gen_tokens = set (tokenize generated);
               overlap = ref_tokens \<inter> gen_tokens
           in map_sum id round4 (truediv (card overlap) (card ref_tokens)))"

definition simple_overlap :: "string \<Rightarrow> string \<Rightarrow> error + rat" where
  "simple_overlap reference generated =
     (let ref_tokens = set (tokenize reference)
      in if ref_tokens = {} then Inr 0
         else
           let gen_tokens = set (tokenize generated);
               overlap = ref_tokens \<inter> gen_tokens
           in map_sum id round4 (truediv (card overlap) (card (ref_tokens \<union> gen_tokens))))"

subsection \<open>Structural metrics\<close>

fun startswith :: "string \<Rightarrow> string \<Rightarrow> bool" where
  "startswith text [] = True"
| "startswith [] (p # ps) = False"
| "startswith (ch # rest) (p # ps) = (ch = p \<and> startswith rest ps)"

text \<open>\<open>str_contains text keyword\<close> is the Python test \<^verbatim>\<open>keyword in text\<close>.\<close>

fun str_contains :: "string \<Rightarrow> string \<Rightarrow> bool" where
  "str_contains [] keyword = (keyword = [])"
| "str_contains (ch # rest) keyword =
     (startswith (ch # rest) keyword \<or> str_contains rest keyword)"

definition str_strip :: "string \<Rightarrow> string" where
  "str_strip text = rev (dropWhile isspace (rev (dropWhile isspace text)))"

definition is_linebreak :: "char \<Rightarrow> bool" where
  "is_linebreak ch =
     (let n = (of_char ch :: nat) in (10 \<le> n \<and> n \<le> 13) \<or> (28 \<le> n \<and> n \<le> 30))"

text \<open>
  \<^verbatim>\<open>str.splitlines()\<close>: a carriage return followed by a line feed is one boundary, and
  a boundary at the very end opens no further line.
\<close>

fun splitlines_from :: "string \<Rightarrow> string \<Rightarrow> string list" where
  "splitlines_from cur [] = (if cur = [] then [] else [cur])"
| "splitlines_from cur [ch] =
     (if is_linebreak ch then [cur] else [cur @ [ch]])"
| "splitlines_from cur (ch # nxt # rest) =
     (if ch = char_of (13 :: nat) \<and> nxt = char_of (10 :: nat) then cur # splitlines_from [] rest
      else if is_linebreak ch then cur # splitlines_from [] (nxt # rest)
      else splitlines_from (cur @ [ch]) (nxt # rest))"

definition splitlines :: "string \<Rightarrow> string list" where
  "splitlines text = splitlines_from [] text"

text \<open>
  The source holds the call-to-action phrases in a set and only asks whether any of them
  occurs, so the order of the list below is immaterial.
\<close>

definition CTA_KEYWORDS :: "string list" where
  "CTA_KEYWORDS = [''subscribe'', ''share'', ''tag'', ''join'', ''follow'', ''call to action'',
     ''let us know'', ''tell us'', ''comment'']"

definition detect_cta :: "string \<Rightarrow> bool" where
  "detect_cta text = (let lower_text = str_lower text in list_ex (str_contains lower_text) CTA_KEYWORDS)"

definition heading_count :: "string \<Rightarrow> nat" where
  "heading_count text =
     length (filter (\<lambda>line. startswith (str_strip line) ''#'') (splitlines text))"

subsection \<open>Metric results\<close>

type_synonym metrics = "(string \<times> rat) list"

text \<open>
  The two optional scorers are parameters. \<open>rouge_scorer\<close> is \<open>None\<close> when the import of
  the ROUGE package failed, otherwise it gives the two F-measures of
  \<^verbatim>\<open>RougeScorer(["rouge1", "rougeL"], use_stemmer=True).score\<close>. \<open>bert_score\<close> is
  \<open>None\<close> when its import failed; otherwise it takes the generated text, the reference
  and the optional \<^verbatim>\<open>model_type\<close> and gives the means of precision, recall and F1,
  or the exception raised anywhere inside the \<^verbatim>\<open>try\<close> block.
\<close>

type_synonym rouge_scorer = "(string \<Rightarrow> string \<Rightarrow> rat \<times> rat) option"
type_synonym bert_score = "(string \<Rightarrow> string \<Rightarrow> string option \<Rightarrow> error + rat \<times> rat \<times> rat) option"

definition rouge_scores :: "rouge_scorer \<Rightarrow> string \<Rightarrow> string \<Rightarrow> error + metrics" where
  "rouge_scores rouge_scorer reference generated =
     (case rouge_scorer of
        None \<Rightarrow>
          (case simple_overlap reference generated of
             Inl e \<Rightarrow> Inl e
           | Inr overlap \<Rightarrow> Inr [(''rouge1_f'', overlap), (''rougeL_f'', overlap)])
      | Some scorer \<Rightarrow>
          (let scores = scorer reference generated
           in Inr [(''rouge1_f'', round4 (fst scores)), (''rougeL_f'', round4 (snd scores))]))"

definition float_of_bool :: "bool \<Rightarrow> rat" where
  "float_of_bool b = (if b then 1 else 0)"

text \<open>
  The \<^verbatim>\<open>model_type\<close> keyword is passed only for a \<^verbatim>\<open>bert_model\<close> that is neither
  \<^verbatim>\<open>None\<close> nor the empty string.
\<close>

definition bert_model_type :: "string option \<Rightarrow> string option" where
  "bert_model_type bert_model =
     (case bert_model of None \<Rightarrow> None | Some m \<Rightarrow> if m = [] then None else Some m)"

definition bert_metrics ::
  "bert_score \<Rightarrow> string \<Rightarrow> string \<Rightarrow> bool \<Rightarrow> string option \<Rightarrow> metrics \<Rightarrow> metrics" where
  "bert_metrics bert_score reference generated skip_bert bert_model metrics =
     (case bert_score of
        None \<Rightarrow> metrics
      | Some scorer \<Rightarrow>
          if skip_bert then metrics
          else
            (case scorer generated reference (bert_model_type bert_model) of
               Inr (precision, recall, f1) \<Rightarrow>
                 (let metrics = AList.update ''bert_precision'' (round4 precision) metrics;
                      metrics = AList.update ''bert_recall'' (round4 recall) metrics
                  in AList.update ''bert_f1'' (round4 f1) metrics)
             | Inl exc \<Rightarrow> AList.update ''bert_f1_error'' (1 :: rat) metrics))"

definition collect_metrics ::
  "rouge_scorer \<Rightarrow> bert_score \<Rightarrow> string \<Rightarrow> string \<Rightarrow> bool \<Rightarrow> string option \<Rightarrow> error + metrics" where
  "collect_metrics rouge_scorer bert_score reference generated skip_bert bert_model =
     (case rouge_scores rouge_scorer reference generated of
        Inl e \<Rightarrow> Inl e
      | Inr rouge \<Rightarrow>
          (case keyword_recall reference generated of
             Inl e \<Rightarrow> Inl e
           | Inr recall \<Rightarrow>
               (let metrics = rouge;
                    metrics = AList.update ''keyword_recall'' recall metrics;
                    metrics = AList.update ''call_to_action'' (float_of_bool (detect_cta generated)) metrics;
                    metrics = AList.update ''heading_count'' (of_nat (heading_count generated)) metrics;
                    metrics = AList.update ''word_count_generated''
                                (of_nat (length (tokenize generated))) metrics;
                    metrics = AList.update ''word_count_reference''
                                (of_nat (length (tokenize reference))) metrics
                in Inr (bert_metrics bert_score reference generated skip_bert bert_model metrics))))"

subsection \<open>Output resolver\<close>

text \<open>
  A sample is the dictionary built by \<^verbatim>\<open>evaluate\<close>. The keys read with
  \<^verbatim>\<open>sample[...]\<close> are fields; \<^verbatim>\<open>tone\<close>, read with \<^verbatim>\<open>sample.get\<close>, may be absent.
\<close>

record sample =
  sample_id :: string
  sample_transcript :: string
  sample_reference :: string
  sample_tone :: "string option"

text \<open>
  What \<^verbatim>\<open>generate_blog\<close> may hand back: a dictionary (of text values, as its signature
  declares), a plain string (the older summariser) or anything else. The capability is
  a parameter taking the transcript and the tone.
\<close>

datatype response = RespDict "(string \<times> string) list" | RespStr string | RespOther

type_synonym generate_blog = "string \<Rightarrow> string \<Rightarrow> response"

text \<open>The file system of the harness: the text stored at each existing path.\<close>

type_synonym path = string
type_synonym filesystem = "path \<rightharpoonup> string"

definition path_join :: "path \<Rightarrow> string \<Rightarrow> path" where
  "path_join dir name = dir @ ''/'' @ name"

definition read_text :: "filesystem \<Rightarrow> path \<Rightarrow> error + string" where
  "read_text fs p =
     (case fs p of
        None \<Rightarrow> Inl (FileNotFoundError (''Expected file missing: '' @ p))
      | Some content \<Rightarrow> Inr (str_strip content))"

definition str_of_optional :: "string option \<Rightarrow> string" where
  "str_of_optional v = (case v of None \<Rightarrow> ''None'' | Some s \<Rightarrow> s)"

fun cached_output :: "filesystem \<Rightarrow> path \<Rightarrow> string \<Rightarrow> string list \<Rightarrow> error + string" where
  "cached_output fs generated_dir ident [] =
     Inl (FileNotFoundError
       (''No cached output found for sample '' @ ident @ '' in '' @ generated_dir))"
| "cached_output fs generated_dir ident (ext # exts) =
     (let candidate = path_join generated_dir (ident @ ext)
      in if fs candidate \<noteq> None then read_text fs candidate
         else cached_output fs generated_dir ident exts)"

definition resolve_generated_text ::
  "generate_blog \<Rightarrow> filesystem \<Rightarrow> sample \<Rightarrow> string \<Rightarrow> path \<Rightarrow> error + string" where
  "resolve_generated_text generate_blog fs sample mode generated_dir =
     (if mode = ''live'' then
        (let tone = str_lower (case sample_tone sample of None \<Rightarrow> ''professional'' | Some t \<Rightarrow> t);
             response = generate_blog (sample_transcript sample) tone
         in case response of
              RespDict d \<Rightarrow>
                if map_of d ''status'' \<noteq> Some ''success'' then
                  Inl (RuntimeError (''Model call failed for '' @ sample_id sample @ '': ''
                         @ str_of_optional (map_of d ''message'')))
                else (case map_of d ''blog_post'' of
                        None \<Rightarrow> Inl (KeyError ''blog_post'')
                      | Some blog_post \<Rightarrow> Inr blog_post)
            | RespStr text \<Rightarrow> Inr text
            | RespOther \<Rightarrow> Inl (TypeError ''Unexpected response type from generate_blog''))
      else cached_output fs generated_dir (sample_id sample) [''.md'', ''.txt''])"

subsection \<open>Tone handling of the summariser\<close>

definition tone_instructions :: "(string \<times> string) list" where
  "tone_instructions =
     [(''professional'', ''Write in a professional, business-appropriate tone.''),
      (''casual'', ''Write in a casual, conversational tone.''),
      (''educational'', ''Write in an informative, educational tone suitable for teaching.''),
      (''persuasive'', ''Write in a persuasive, compelling tone that convinces the reader.'')]"

text \<open>
  The first statement of \<^verbatim>\<open>generate_blog\<close> in the summariser: a tone that is no key of
  \<^const>\<open>tone_instructions\<close> is replaced by the default.
\<close>

definition default_tone :: "string \<Rightarrow> string" where
  "default_tone tone = (if map_of tone_instructions tone = None then ''professional'' else tone)"

subsection \<open>Evaluation runner\<close>

text \<open>
  A dataset row. The keys the tools read with \<^verbatim>\<open>row[...]\<close> are fields; \<^verbatim>\<open>tone\<close> and
  \<^verbatim>\<open>notes\<close>, which they read with \<^verbatim>\<open>row.get\<close>, may be absent.
\<close>

record row =
  row_id :: string
  video_title :: string
  video_url :: string
  transcript_path :: string
  reference_blog_path :: string
  row_tone :: "string option"
  row_notes :: "string option"

type_synonym results = "(string \<times> metrics) list"

text \<open>The dictionary literal of \<^verbatim>\<open>evaluate\<close> that becomes the sample.\<close>

definition build_sample :: "filesystem \<Rightarrow> path \<Rightarrow> row \<Rightarrow> error + sample" where
  "build_sample fs base_dir r =
     (case read_text fs (path_join base_dir (transcript_path r)) of
        Inl e \<Rightarrow> Inl e
      | Inr transcript \<Rightarrow>
          (case read_text fs (path_join base_dir (reference_blog_path r)) of
             Inl e \<Rightarrow> Inl e
           | Inr reference \<Rightarrow>
               Inr \<lparr>sample_id = row_id r, sample_transcript = transcript,
                    sample_reference = reference,
                    sample_tone = Some (case row_tone r of None \<Rightarrow> ''professional'' | Some t \<Rightarrow> t)\<rparr>))"

record harness =
  h_generate_blog :: generate_blog
  h_rouge_scorer :: rouge_scorer
  h_bert_score :: bert_score
  h_fs :: filesystem
  h_base_dir :: path

fun evaluate_rows ::
  "harness \<Rightarrow> string \<Rightarrow> path \<Rightarrow> bool \<Rightarrow> string option \<Rightarrow> row list \<Rightarrow> results \<Rightarrow> error + results" where
  "evaluate_rows h mode generated_dir skip_bert bert_model [] results = Inr results"
| "evaluate_rows h mode generated_dir skip_bert bert_model (r # rest) results =
     (case build_sample (h_fs h) (h_base_dir h) r of
        Inl e \<Rightarrow> Inl e
      | Inr sample \<Rightarrow>
          (case resolve_generated_text (h_generate_blog h) (h_fs h) sample mode generated_dir of
             Inl e \<Rightarrow> Inl e
           | Inr generated \<Rightarrow>
               (case collect_metrics (h_rouge_scorer h) (h_bert_score h) (sample_reference sample)
                       generated skip_bert bert_model of
                  Inl e \<Rightarrow> Inl e
                | Inr metrics \<Rightarrow>
                    evaluate_rows h mode generated_dir skip_bert bert_model rest
                      (AList.update (row_id r) metrics results))))"

definition evaluate ::
  "harness \<Rightarrow> row list \<Rightarrow> string \<Rightarrow> path \<Rightarrow> bool \<Rightarrow> string option \<Rightarrow> error + results" where
  "evaluate h dataset mode generated_dir skip_bert bert_model =
     evaluate_rows h mode generated_dir skip_bert bert_model dataset []"

subsection \<open>Aggregator\<close>

definition mean :: "rat list \<Rightarrow> error + rat" where
  "mean data =
     (if data = [] then Inl StatisticsError else Inr (sum_list data / of_nat (length data)))"

definition avg_key :: "string \<Rightarrow> string" where
  "avg_key metric = ''avg_'' @ metric"

text \<open>The loop of \<^verbatim>\<open>aggregate\<close> over the sorted metric names, filling \<open>summary\<close>.\<close>

fun aggregate_keys :: "results \<Rightarrow> string list \<Rightarrow> metrics \<Rightarrow> error + metrics" where
  "aggregate_keys results [] summary = Inr summary"
| "aggregate_keys results (metric # rest) summary =
     (let values = List.map_filter (\<lambda>sample. map_of sample metric) (map snd results)
      in case (if values \<noteq> [] then mean values else Inr 0) of
           Inl e \<Rightarrow> Inl e
         | Inr v \<Rightarrow> aggregate_keys results rest (AList.update (avg_key metric) v summary))"

definition aggregate :: "results \<Rightarrow> error + metrics" where
  "aggregate results =
     (if results = [] then Inr []
      else
        let all_keys = sorted_list_of_set (set (concat (map (\<lambda>sample. map fst sample) (map snd results))))
        in aggregate_keys results all_keys [])"

subsection \<open>Dataset store\<close>

text \<open>
  The state the dataset tool works on: the rows held by the dataset file (\<open>None\<close> while
  the file does not exist) and the set of the other paths that exist. The JSON lines of
  the file are read as the rows they encode, and the dataset file is none of the
  transcript or reference paths.
\<close>

record store =
  stored :: "row list option"
  existing :: "path set"

record add_args =
  arg_id :: string
  arg_title :: string
  arg_video_url :: string
  arg_transcript :: string
  arg_reference :: string
  arg_tone :: string
  arg_notes :: "string option"

definition load_rows :: "store \<Rightarrow> row list" where
  "load_rows st = (case stored st of None \<Rightarrow> [] | Some rows \<Rightarrow> rows)"

definition write_rows :: "store \<Rightarrow> row list \<Rightarrow> store" where
  "write_rows st rows = st\<lparr>stored := Some rows\<rparr>"

definition touch :: "path \<Rightarrow> store \<Rightarrow> store" where
  "touch p st = st\<lparr>existing := insert p (existing st)\<rparr>"

text \<open>
  \<open>add_sample\<close> gives the exit of the command (\<open>None\<close> for a normal return) and the
  store it leaves behind.
\<close>

definition add_sample :: "add_args \<Rightarrow> store \<Rightarrow> error option \<times> store" where
  "add_sample args st =
     (let rows = load_rows st
      in if list_ex (\<lambda>r. row_id r = arg_id args) rows then
           (Some (SystemExit (''Dataset already contains id '' @ [CHR 0x27] @ arg_id args
                    @ [CHR 0x27] @ ''. Use a unique identifier.'')), st)
         else
           let st = (if arg_transcript args \<notin> existing st then touch (arg_transcript args) st else st);
               st = (if arg_reference args \<notin> existing st then touch (arg_reference args) st else st);
               r = \<lparr>row_id = arg_id args, video_title = arg_title args,
                     video_url = arg_video_url args,
                     transcript_path = arg_transcript args,
                     reference_blog_path = arg_reference args,
                     row_tone = Some (arg_tone args),
                     row_notes = Some (case arg_notes args of None \<Rightarrow> [] | Some n \<Rightarrow> n)\<rparr>
           in (None, write_rows st (rows @ [r])))"

text \<open>
  What \<^verbatim>\<open>list\<close> prints for one row: the id, the title, the tone (with its default),
  the two paths, and the notes when they are not empty. \<open>list_samples\<close> gives these
  entries in the order of the rows; for an empty dataset the command prints a notice and
  no entry.
\<close>

record listing =
  listed_id :: string
  listed_title :: string
  listed_tone :: string
  listed_transcript :: string
  listed_reference :: string
  listed_notes :: "string option"

definition list_samples :: "store \<Rightarrow> listing list" where
  "list_samples st =
     map (\<lambda>r. \<lparr>listed_id = row_id r, listed_title = video_title r,
                listed_tone = (case row_tone r of None \<Rightarrow> ''professional'' | Some t \<Rightarrow> t),
                listed_transcript = transcript_path r,
                listed_reference = reference_blog_path r,
                listed_notes = (case row_notes r of None \<Rightarrow> None
                                | Some n \<Rightarrow> if n = [] then None else Some n)\<rparr>)
       (load_rows st)"

section \<open>The specification's vocabulary\<close>

text \<open>
  The definitions of this section follow the wording of the specification; the theorems
  compare them with the code above.
\<close>

text \<open>
  Content words: lower-case the text, cut it at the non-alphanumeric characters, drop the
  stop words.
\<close>

definition spec_tokens :: "string \<Rightarrow> string set" where
  "spec_tokens text =
     {tok \<in> set (split_by (\<lambda>ch. \<not> isalnum ch) [] (str_lower text)). tok \<notin> STOPWORDS}"


text \<open>The keyword set: the content words of the reference longer than four characters.\<close>

definition spec_keywords :: "string \<Rightarrow> string set" where
  "spec_keywords reference = {tok \<in> spec_tokens reference. 4 < length tok}"


text \<open>The samples that reported a metric, and the mean of the metric over them.\<close>

definition reporting :: "results \<Rightarrow> string \<Rightarrow> metrics list" where
  "reporting results metric = filter (\<lambda>sample. metric \<in> fst ` set sample) (map snd results)"

definition spec_mean :: "results \<Rightarrow> string \<Rightarrow> rat" where
  "spec_mean results metric =
     sum_list (map (\<lambda>sample. the (map_of sample metric)) (reporting results metric))
       / of_nat (length (reporting results metric))"

text \<open>The tone a record sends to the capability: its own, lower-cased, or the default.\<close>

definition passed_tone :: "string option \<Rightarrow> string" where
  "passed_tone t = str_lower (case t of None \<Rightarrow> ''professional'' | Some x \<Rightarrow> x)"

subsection \<open>Concrete capabilities and data for the examples\<close>

definition echo_tone :: generate_blog where
  "echo_tone transcript tone = RespStr tone"




definition no_files :: filesystem where
  "no_files p = None"

definition example_files :: filesystem where
  "example_files = map_of [(''base/t/v1.txt'', ''hello there''), (''base/r/v1.md'', ''# Hello'')]"

definition example_row :: "string option \<Rightarrow> row" where
  "example_row t = \<lparr>row_id = ''v1'', video_title = ''Title'', video_url = ''url'',
     transcript_path = ''t/v1.txt'', reference_blog_path = ''r/v1.md'',
     row_tone = t, row_notes = None\<rparr>"

definition example_sample :: "string option \<Rightarrow> sample" where
  "example_sample t = \<lparr>sample_id = ''v1'', sample_transcript = ''hello there'',
     sample_reference = ''# Hello'', sample_tone = t\<rparr>"

definition example_args :: add_args where
  "example_args = \<lparr>arg_id = ''v1'', arg_title = ''Title'', arg_video_url = ''url'',
     arg_transcript = ''t/v1.txt'', arg_reference = ''r/v1.md'',
     arg_tone = ''professional'', arg_notes = None\<rparr>"

definition empty_store :: store where
  "empty_store = \<lparr>stored = None, existing = {}\<rparr>"


definition example_results :: results where
  "example_results =
     [(''a'', [(''m'', 1), (''z'', 5)]), (''b'', [(''m'', 3)]), (''c'', [(''k'', 4)])]"

subsection \<open>Auxiliary notions\<close>

text \<open>The text of the exit raised for an id that is already stored.\<close>

definition duplicate_message :: "string \<Rightarrow> string" where
  "duplicate_message ident =
     ''Dataset already contains id '' @ [CHR 0x27] @ ident @ [CHR 0x27] @ ''. Use a unique identifier.''"

text \<open>The value one round of the loop of \<^verbatim>\<open>aggregate\<close> stores for a metric.\<close>

definition avg_value :: "results \<Rightarrow> string \<Rightarrow> rat" where
  "avg_value results metric =
     (let values = List.map_filter (\<lambda>sample. map_of sample metric) (map snd results)
      in if values \<noteq> [] then sum_list values / of_nat (length values) else 0)"

section \<open>Tokens and the lexical metrics\<close>

lemma isalnum_lower: "isalnum (lower ch) = isalnum ch"
  by (auto simp: isalnum_def lower_def Let_def)

lemma isspace_lower: "isalnum ch \<Longrightarrow> \<not> isspace (lower ch)"
  by (auto simp: isalnum_def lower_def isspace_def Let_def)

lemma isspace_blank: "isspace (CHR '' '')"
  by (simp add: isspace_def)

text \<open>
  Blanking the non-alphanumeric characters and splitting at white space cuts the text
  where splitting the lower-cased text at its non-alphanumeric characters does.
\<close>

lemma split_by_clean:
  "split_by isspace cur (map (\<lambda>ch. if isalnum ch then lower ch else CHR '' '') xs) =
   split_by (\<lambda>ch. \<not> isalnum ch) cur (map lower xs)"
  by (induction xs arbitrary: cur) (simp_all add: isalnum_lower isspace_lower isspace_blank)

lemma split_by_nonempty: "tok \<in> set (split_by sep cur xs) \<Longrightarrow> tok \<noteq> []"
  by (induction sep cur xs rule: split_by.induct) (auto split: if_splits)

lemma tokenize_spec: "set (tokenize xs) = spec_tokens xs"
  unfolding tokenize_def spec_tokens_def str_split_def str_lower_def Let_def split_by_clean
  by (auto dest: split_by_nonempty)

lemma keywords_spec: "set (filter (\<lambda>tok. length tok > 4) (tokenize xs)) = spec_keywords xs"
  by (auto simp: spec_keywords_def tokenize_spec [symmetric])

lemma finite_spec_tokens: "finite (spec_tokens xs)"
  by (simp add: spec_tokens_def)



lemma round4_zero: "round4 0 = 0"
  by (simp add: round4_def)

lemma round4_one: "round4 1 = 1"
  by (simp add: round4_def)

lemma simple_overlap_sets:
  "simple_overlap reference generated =
     Inr (if spec_tokens reference = {} then 0
          else round4 (of_nat (card (spec_tokens reference \<inter> spec_tokens generated))
                 / of_nat (card (spec_tokens reference \<union> spec_tokens generated))))"
  by (simp add: simple_overlap_def truediv_def Let_def tokenize_spec finite_spec_tokens
        del: set_empty)

lemma keyword_recall_sets:
  "keyword_recall reference generated =
     Inr (if spec_keywords reference = {} then 0
          else round4 (of_nat (card (spec_keywords reference \<inter> spec_tokens generated))
                 / of_nat (card (spec_keywords reference))))"
proof -
  have "finite (spec_keywords reference)"
    by (simp add: spec_keywords_def finite_spec_tokens)
  then show ?thesis
    by (simp add: keyword_recall_def truediv_def Let_def tokenize_spec keywords_spec
          del: set_empty set_filter)
qed





text \<open>
  Claim C6. \<^const>\<open>simple_overlap\<close> is symmetric: swapping the two texts never changes
  its result. \<^const>\<open>keyword_recall\<close> is not: some pair of texts gives different results
  in the two directions.
\<close>

theorem overlap_symmetric_recall_not:
  "(\<forall>a b. simple_overlap a b = simple_overlap b a)
   \<and> (\<exists>a b. keyword_recall a b \<noteq> keyword_recall b a)"
proof
  show "\<forall>a b. simple_overlap a b = simple_overlap b a"
    by (simp add: simple_overlap_sets Int_commute Un_commute round4_zero)
  have "keyword_recall ''hello world'' ''hello'' \<noteq> keyword_recall ''hello'' ''hello world''"
    by code_simp
  then show "\<exists>a b. keyword_recall a b \<noteq> keyword_recall b a"
    by blast
qed

theorem overlap_symmetric_recall_not_witness:
  "simple_overlap ''the quick brown fox'' ''lazy dog'' = simple_overlap ''lazy dog'' ''the quick brown fox''"
  using overlap_symmetric_recall_not by blast

section \<open>The metric result of a sample\<close>

lemma simple_overlap_self: "spec_tokens xs \<noteq> {} \<Longrightarrow> simple_overlap xs xs = Inr 1"
  by (simp add: simple_overlap_sets finite_spec_tokens round4_one)

lemma map_of_bert_metrics:
  "k \<notin> {''bert_precision'', ''bert_recall'', ''bert_f1'', ''bert_f1_error''} \<Longrightarrow>
   map_of (bert_metrics bs reference generated skip model m) k = map_of m k"
  by (auto simp: bert_metrics_def update_conv' Let_def split: option.splits sum.splits)



lemma rouge_scores_keys:
  "\<exists>m. rouge_scores rs reference generated = Inr m \<and> map fst m = [''rouge1_f'', ''rougeL_f'']"
  by (simp add: rouge_scores_def simple_overlap_sets Let_def split: option.splits)

text \<open>No step of \<^const>\<open>collect_metrics\<close> raises: the result is the chain of updates.\<close>

lemma collect_metrics_total:
  "\<exists>rouge recall. rouge_scores rs reference generated = Inr rouge
     \<and> keyword_recall reference generated = Inr recall
     \<and> collect_metrics rs bs reference generated skip model =
         Inr (bert_metrics bs reference generated skip model
           (AList.update ''word_count_reference'' (of_nat (length (tokenize reference)))
             (AList.update ''word_count_generated'' (of_nat (length (tokenize generated)))
               (AList.update ''heading_count'' (of_nat (heading_count generated))
                 (AList.update ''call_to_action'' (float_of_bool (detect_cta generated))
                   (AList.update ''keyword_recall'' recall rouge))))))"
proof -
  obtain rouge where "rouge_scores rs reference generated = Inr rouge"
    using rouge_scores_keys [of rs reference generated] by blast
  moreover obtain recall where "keyword_recall reference generated = Inr recall"
    by (simp add: keyword_recall_sets)
  ultimately show ?thesis
    by (simp add: collect_metrics_def Let_def)
qed

text \<open>
  Claim C4. When the ROUGE scorer is unavailable, for every pair of texts the entries
  \<^verbatim>\<open>rouge1_f\<close> and \<^verbatim>\<open>rougeL_f\<close> of \<^const>\<open>rouge_scores\<close>, and of the metric result
  of \<^const>\<open>collect_metrics\<close>, both hold the value of \<^const>\<open>simple_overlap\<close> for that
  pair. For a text with at least one content word compared with itself that value is 1,
  as it is for \<^verbatim>\<open>the quick brown fox jumps\<close>.
\<close>

theorem rouge_fallback_is_overlap:
  "(\<exists>overlap metrics.
      simple_overlap reference generated = Inr overlap
      \<and> rouge_scores None reference generated = Inr [(''rouge1_f'', overlap), (''rougeL_f'', overlap)]
      \<and> collect_metrics None bs reference generated skip model = Inr metrics
      \<and> map_of metrics ''rouge1_f'' = Some overlap
      \<and> map_of metrics ''rougeL_f'' = Some overlap)
   \<and> (spec_tokens reference \<noteq> {} \<longrightarrow> simple_overlap reference reference = Inr 1)
   \<and> simple_overlap ''the quick brown fox jumps'' ''the quick brown fox jumps'' = Inr 1"
proof -
  obtain overlap where o: "simple_overlap reference generated = Inr overlap"
    by (simp add: simple_overlap_sets)
  then have r: "rouge_scores None reference generated = Inr [(''rouge1_f'', overlap), (''rougeL_f'', overlap)]"
    by (simp add: rouge_scores_def)
  obtain rouge recall where "rouge_scores None reference generated = Inr rouge"
    and c: "collect_metrics None bs reference generated skip model =
         Inr (bert_metrics bs reference generated skip model
           (AList.update ''word_count_reference'' (of_nat (length (tokenize reference)))
             (AList.update ''word_count_generated'' (of_nat (length (tokenize generated)))
               (AList.update ''heading_count'' (of_nat (heading_count generated))
                 (AList.update ''call_to_action'' (float_of_bool (detect_cta generated))
                   (AList.update ''keyword_recall'' recall rouge))))))"
    using collect_metrics_total [of None reference generated bs skip model] by blast
  with r have rouge: "rouge = [(''rouge1_f'', overlap), (''rougeL_f'', overlap)]"
    by simp
  have "\<exists>metrics. collect_metrics None bs reference generated skip model = Inr metrics
      \<and> map_of metrics ''rouge1_f'' = Some overlap
      \<and> map_of metrics ''rougeL_f'' = Some overlap"
    unfolding c rouge by (simp add: map_of_bert_metrics update_conv')
  moreover have "simple_overlap ''the quick brown fox jumps'' ''the quick brown fox jumps'' = Inr 1"
    by code_simp
  ultimately show ?thesis
    using o r by (auto simp: simple_overlap_self)
qed

theorem rouge_fallback_is_overlap_witness:
  "spec_tokens ''Foxes jump'' \<noteq> {}
   \<and> simple_overlap ''Foxes jump'' ''Foxes jump'' = Inr 1
   \<and> rouge_scores None ''Foxes jump'' ''Foxes jump'' = Inr [(''rouge1_f'', 1), (''rougeL_f'', 1)]"
proof -
  have a: "spec_tokens ''Foxes jump'' \<noteq> {}"
    by code_simp
  show ?thesis
    using a rouge_fallback_is_overlap [of "''Foxes jump''" "''Foxes jump''" None True None]
    by auto
qed



section \<open>The output resolver\<close>

lemma resolve_live:
  "resolve_generated_text g fs s ''live'' dir =
     (case g (sample_transcript s) (passed_tone (sample_tone s)) of
        RespDict d \<Rightarrow>
          if map_of d ''status'' \<noteq> Some ''success'' then
            Inl (RuntimeError (''Model call failed for '' @ sample_id s @ '': ''
                   @ str_of_optional (map_of d ''message'')))
          else (case map_of d ''blog_post'' of
                  None \<Rightarrow> Inl (KeyError ''blog_post'')
                | Some blog_post \<Rightarrow> Inr blog_post)
      | RespStr t \<Rightarrow> Inr t
      | RespOther \<Rightarrow> Inl (TypeError ''Unexpected response type from generate_blog''))"
  by (simp add: resolve_generated_text_def passed_tone_def Let_def)






section \<open>The tone sent to the capability\<close>

lemma build_sample_tone:
  "build_sample fs base r = Inr s \<Longrightarrow>
   sample_tone s = Some (case row_tone r of None \<Rightarrow> ''professional'' | Some t \<Rightarrow> t)"
  by (auto simp: build_sample_def split: sum.splits)

lemma passed_tone_sample:
  "build_sample fs base r = Inr s \<Longrightarrow> passed_tone (sample_tone s) = passed_tone (row_tone r)"
  by (simp add: build_sample_tone passed_tone_def split: option.splits)

lemma passed_tone_absent: "passed_tone None = ''professional''"
  by code_simp

text \<open>
  Claim C9, as the specification states it, fails: the record of a sample whose tone is
  \<^verbatim>\<open>Sarcastic\<close>, a value the summariser does not know, sends \<^verbatim>\<open>sarcastic\<close> to the
  capability, not \<^verbatim>\<open>professional\<close>.
\<close>

theorem unrecognized_tone_passed_on:
  "build_sample example_files ''base'' (example_row (Some ''Sarcastic''))
     = Inr (example_sample (Some ''Sarcastic''))
   \<and> resolve_generated_text echo_tone example_files (example_sample (Some ''Sarcastic'')) ''live'' ''out''
     = Inr ''sarcastic''
   \<and> map_of tone_instructions ''sarcastic'' = None
   \<and> ''sarcastic'' \<noteq> ''professional''"
  by code_simp

text \<open>
  Claim C9, amended. For every dataset row whose sample can be built, the tone passed to
  the generation capability in live mode is the row's tone in lower case, and
  \<^verbatim>\<open>professional\<close> when the row has no tone: the capability that echoes its tone
  returns exactly that, and the outcome depends on the capability only through its answer
  to that tone. A value the summariser does not know is passed on; it is the summariser's
  own first step, \<^const>\<open>default_tone\<close>, that replaces a tone outside its four by
  \<^verbatim>\<open>professional\<close>.
\<close>

theorem tone_passed_to_capability:
  "build_sample fs base r = Inr s \<Longrightarrow>
     resolve_generated_text echo_tone fs' s ''live'' dir = Inr (passed_tone (row_tone r))
     \<and> (\<forall>g g'. g (sample_transcript s) (passed_tone (row_tone r))
                 = g' (sample_transcript s) (passed_tone (row_tone r))
          \<longrightarrow> resolve_generated_text g fs' s ''live'' dir = resolve_generated_text g' fs' s ''live'' dir)
     \<and> passed_tone None = ''professional''
     \<and> default_tone (passed_tone (row_tone r)) =
         (if passed_tone (row_tone r) \<in> {''professional'', ''casual'', ''educational'', ''persuasive''}
          then passed_tone (row_tone r) else ''professional'')"
  by (simp add: resolve_live passed_tone_sample echo_tone_def passed_tone_absent default_tone_def
        tone_instructions_def)

theorem tone_passed_to_capability_witness:
  "build_sample example_files ''base'' (example_row (Some ''Educational''))
     = Inr (example_sample (Some ''Educational''))
   \<and> passed_tone (Some ''Educational'') = ''educational''
   \<and> resolve_generated_text echo_tone no_files (example_sample (Some ''Educational'')) ''live'' ''out''
     = Inr ''educational''
   \<and> default_tone ''educational'' = ''educational''"
proof -
  have a: "build_sample example_files ''base'' (example_row (Some ''Educational''))
     = Inr (example_sample (Some ''Educational''))"
    by code_simp
  have b: "passed_tone (Some ''Educational'') = ''educational''"
    by code_simp
  have c: "row_tone (example_row (Some ''Educational'')) = Some ''Educational''"
    by (simp add: example_row_def)
  show ?thesis
    using a b tone_passed_to_capability [OF a, where fs' = no_files and dir = "''out''"]
    unfolding c b by simp
qed

section \<open>The dataset store\<close>

lemma load_write_rows: "load_rows (write_rows st rows) = rows"
  by (simp add: load_rows_def write_rows_def)

lemma count_listed:
  "length (filter (\<lambda>e. listed_id e = i) (list_samples st)) =
   length (filter (\<lambda>r. row_id r = i) (load_rows st))"
  by (simp add: list_samples_def filter_map o_def)

lemma add_sample_duplicate:
  "arg_id args \<in> row_id ` set (load_rows st) \<Longrightarrow>
   add_sample args st = (Some (SystemExit (duplicate_message (arg_id args))), st)"
  by (auto simp: add_sample_def duplicate_message_def list_ex_iff Let_def)

lemma add_sample_fresh:
  "arg_id args \<notin> row_id ` set (load_rows st) \<Longrightarrow>
   \<exists>st'. add_sample args st = (None, st')
     \<and> map row_id (load_rows st') = map row_id (load_rows st) @ [arg_id args]"
proof -
  assume "arg_id args \<notin> row_id ` set (load_rows st)"
  then have "\<not> list_ex (\<lambda>r. row_id r = arg_id args) (load_rows st)"
    by (force simp: list_ex_iff)
  then show ?thesis
    by (simp add: add_sample_def Let_def load_write_rows)
qed

text \<open>
  Claim C7. For every store and every sample whose id already occurs in the stored
  dataset, \<^const>\<open>add_sample\<close> exits with the duplicate-id error and leaves the store as
  it was: no row is appended and no placeholder path is created. For a sample whose id
  does not occur, it returns normally and \<^const>\<open>list_samples\<close> then lists that id
  exactly once.
\<close>

theorem add_rejects_duplicate:
  "(arg_id args \<in> row_id ` set (load_rows st) \<longrightarrow>
      add_sample args st = (Some (SystemExit (duplicate_message (arg_id args))), st))
   \<and> (arg_id args \<notin> row_id ` set (load_rows st) \<longrightarrow>
        (\<exists>st'. add_sample args st = (None, st')
           \<and> length (filter (\<lambda>e. listed_id e = arg_id args) (list_samples st')) = 1))"
proof (intro conjI impI)
  assume "arg_id args \<in> row_id ` set (load_rows st)"
  then show "add_sample args st = (Some (SystemExit (duplicate_message (arg_id args))), st)"
    by (rule add_sample_duplicate)
next
  assume fresh: "arg_id args \<notin> row_id ` set (load_rows st)"
  then obtain st' where a: "add_sample args st = (None, st')"
    and ids: "map row_id (load_rows st') = map row_id (load_rows st) @ [arg_id args]"
    using add_sample_fresh by blast
  have "length (filter (\<lambda>r. row_id r = arg_id args) (load_rows st')) =
        length (filter (\<lambda>i. i = arg_id args) (map row_id (load_rows st')))"
    by (simp add: filter_map o_def)
  also have "\<dots> = 1"
    using fresh unfolding ids by (auto simp: filter_empty_conv image_iff)
  finally show "\<exists>st'. add_sample args st = (None, st')
           \<and> length (filter (\<lambda>e. listed_id e = arg_id args) (list_samples st')) = 1"
    using a by (simp add: count_listed)
qed

theorem add_rejects_duplicate_witness:
  "arg_id example_args \<notin> row_id ` set (load_rows empty_store)
   \<and> (\<exists>st'. add_sample example_args empty_store = (None, st')
        \<and> length (filter (\<lambda>e. listed_id e = arg_id example_args) (list_samples st')) = 1
        \<and> arg_id example_args \<in> row_id ` set (load_rows st')
        \<and> add_sample example_args st' = (Some (SystemExit (duplicate_message ''v1'')), st'))"
proof -
  have fresh: "arg_id example_args \<notin> row_id ` set (load_rows empty_store)"
    by (simp add: load_rows_def empty_store_def)
  then obtain st' where a: "add_sample example_args empty_store = (None, st')"
    and b: "length (filter (\<lambda>e. listed_id e = arg_id example_args) (list_samples st')) = 1"
    using add_rejects_duplicate [of example_args empty_store] by blast
  from b have "filter (\<lambda>r. row_id r = arg_id example_args) (load_rows st') \<noteq> []"
    by (auto simp: count_listed)
  then have c: "arg_id example_args \<in> row_id ` set (load_rows st')"
    by (force simp: filter_empty_conv)
  then have "add_sample example_args st' = (Some (SystemExit (duplicate_message (arg_id example_args))), st')"
    using add_rejects_duplicate [of example_args st'] by blast
  then have "add_sample example_args st' = (Some (SystemExit (duplicate_message ''v1'')), st')"
    by (simp add: example_args_def)
  with fresh a b c show ?thesis
    by blast
qed

section \<open>The aggregator\<close>

lemma avg_key_inj: "avg_key a = avg_key b \<longleftrightarrow> a = b"
  by (simp add: avg_key_def)

lemma in_keys_iff: "metric \<in> fst ` set sample \<longleftrightarrow> map_of sample metric \<noteq> None"
  by (simp add: map_of_eq_None_iff)

text \<open>The loop never raises: \<^const>\<open>mean\<close> is only called on a non-empty list.\<close>

lemma aggregate_keys_fold:
  "aggregate_keys results ks summary =
     Inr (fold (\<lambda>metric. AList.update (avg_key metric) (avg_value results metric)) ks summary)"
  by (induction ks arbitrary: summary) (simp_all add: avg_value_def mean_def Let_def)

lemma map_of_fold_other:
  "key \<notin> (\<lambda>metric. avg_key metric) ` set ks \<Longrightarrow>
   map_of (fold (\<lambda>metric. AList.update (avg_key metric) (f metric)) ks summary) key = map_of summary key"
  by (induction ks arbitrary: summary) (auto simp: update_conv')

lemma map_of_fold_key:
  "metric \<in> set ks \<Longrightarrow>
   map_of (fold (\<lambda>metric. AList.update (avg_key metric) (f metric)) ks summary) (avg_key metric)
     = Some (f metric)"
proof (induction ks arbitrary: summary)
  case Nil
  then show ?case by simp
next
  case (Cons k ks)
  show ?case
  proof (cases "metric \<in> set ks")
    case True
    then show ?thesis using Cons.IH by simp
  next
    case False
    with Cons.prems have "k = metric" by simp
    moreover from False have "avg_key metric \<notin> (\<lambda>metric. avg_key metric) ` set ks"
      by (auto simp: avg_key_inj)
    ultimately show ?thesis
      by (simp add: map_of_fold_other update_conv')
  qed
qed

lemma map_filter_reporting:
  "List.map_filter (\<lambda>sample. map_of sample metric) samples =
   map (\<lambda>sample. the (map_of sample metric)) (filter (\<lambda>sample. metric \<in> fst ` set sample) samples)"
  by (induction samples) (auto simp: in_keys_iff)

lemma avg_value_spec:
  "reporting results metric \<noteq> [] \<Longrightarrow> avg_value results metric = spec_mean results metric"
  by (simp add: avg_value_def spec_mean_def reporting_def map_filter_reporting Let_def)

lemma all_keys_iff:
  "metric \<in> set (sorted_list_of_set (set (concat (map (\<lambda>sample. map fst sample) (map snd results)))))
   \<longleftrightarrow> reporting results metric \<noteq> []"
  by (auto simp: reporting_def filter_empty_conv)

text \<open>
  Claim C2. For every mapping from sample ids to metric results, whatever the key sets of
  the samples, \<^const>\<open>aggregate\<close> returns a summary without raising. For every metric
  reported by at least one sample, the summary binds the key of that metric, its name
  after \<^verbatim>\<open>avg_\<close>, to the sum of the metric over the samples that reported it divided
  by the number of those samples; the summary has no other key. The empty mapping gives
  the empty summary, and the mapping of \<^verbatim>\<open>a\<close> to \<^verbatim>\<open>m = 1.0\<close> and \<^verbatim>\<open>b\<close> to
  \<^verbatim>\<open>m = 3.0\<close> gives \<^verbatim>\<open>avg_m = 2.0\<close>.
\<close>

theorem aggregate_is_mean_of_reported:
  "(\<exists>summary. aggregate results = Inr summary
      \<and> (\<forall>metric. reporting results metric \<noteq> [] \<longrightarrow>
            map_of summary (avg_key metric) = Some (spec_mean results metric))
      \<and> (\<forall>key. key \<in> fst ` set summary \<longrightarrow>
            (\<exists>metric. key = avg_key metric \<and> reporting results metric \<noteq> [])))
   \<and> aggregate [] = Inr []
   \<and> (\<exists>summary. aggregate [(''a'', [(''m'', 1)]), (''b'', [(''m'', 3)])] = Inr summary
        \<and> map_of summary ''avg_m'' = Some 2)"
proof (intro conjI)
  show "aggregate [] = Inr []"
    by (simp add: aggregate_def)
  have "aggregate [(''a'', [(''m'', 1)]), (''b'', [(''m'', 3)])] = Inr [(''avg_m'', 2)]"
    by code_simp
  then show "\<exists>summary. aggregate [(''a'', [(''m'', 1)]), (''b'', [(''m'', 3)])] = Inr summary
        \<and> map_of summary ''avg_m'' = Some 2"
    by simp
  show "\<exists>summary. aggregate results = Inr summary
      \<and> (\<forall>metric. reporting results metric \<noteq> [] \<longrightarrow>
            map_of summary (avg_key metric) = Some (spec_mean results metric))
      \<and> (\<forall>key. key \<in> fst ` set summary \<longrightarrow>
            (\<exists>metric. key = avg_key metric \<and> reporting results metric \<noteq> []))"
  proof (cases "results = []")
    case True
    then show ?thesis
      by (simp add: aggregate_def reporting_def)
  next
    case False
    let ?ks = "sorted_list_of_set (set (concat (map (\<lambda>sample. map fst sample) (map snd results))))"
    let ?summary = "fold (\<lambda>metric. AList.update (avg_key metric) (avg_value results metric)) ?ks []"
    have a: "aggregate results = Inr ?summary"
      using False by (simp add: aggregate_def aggregate_keys_fold Let_def)
    have b: "map_of ?summary (avg_key metric) = Some (spec_mean results metric)"
      if "reporting results metric \<noteq> []" for metric
    proof -
      from that have "metric \<in> set ?ks"
        using all_keys_iff [of metric results] by blast
      then have "map_of ?summary (avg_key metric) = Some (avg_value results metric)"
        by (rule map_of_fold_key)
      with that show ?thesis
        by (simp add: avg_value_spec)
    qed
    have c: "\<exists>metric. key = avg_key metric \<and> reporting results metric \<noteq> []"
      if "key \<in> fst ` set ?summary" for key
    proof (rule ccontr)
      assume "\<not> ?thesis"
      then have "key \<notin> (\<lambda>metric. avg_key metric) ` set ?ks"
        using all_keys_iff [of _ results] by blast
      then have "map_of ?summary key = map_of [] key"
        by (rule map_of_fold_other)
      with that show False
        by (simp add: map_of_eq_None_iff)
    qed
    from a b c show ?thesis by blast
  qed
qed

theorem aggregate_is_mean_of_reported_witness:
  "aggregate example_results = Inr [(''avg_k'', 4), (''avg_m'', 2), (''avg_z'', 5)]
   \<and> reporting example_results ''m'' = [[(''m'', 1), (''z'', 5)], [(''m'', 3)]]
   \<and> spec_mean example_results ''m'' = 2
   \<and> (\<exists>metric. ''avg_z'' = avg_key metric \<and> reporting example_results metric \<noteq> [])"
proof -
  have a: "aggregate example_results = Inr [(''avg_k'', 4), (''avg_m'', 2), (''avg_z'', 5)]"
    by code_simp
  have r: "reporting example_results ''m'' = [[(''m'', 1), (''z'', 5)], [(''m'', 3)]]"
    by code_simp
  then have r': "reporting example_results ''m'' \<noteq> []"
    by simp
  obtain summary where s: "aggregate example_results = Inr summary"
    and m: "\<forall>metric. reporting example_results metric \<noteq> [] \<longrightarrow>
            map_of summary (avg_key metric) = Some (spec_mean example_results metric)"
    and k: "\<forall>key. key \<in> fst ` set summary \<longrightarrow>
            (\<exists>metric. key = avg_key metric \<and> reporting example_results metric \<noteq> [])"
    using aggregate_is_mean_of_reported [of example_results] by blast
  from s a have summary: "summary = [(''avg_k'', 4), (''avg_m'', 2), (''avg_z'', 5)]"
    by simp
  from m r' have "map_of summary (avg_key ''m'') = Some (spec_mean example_results ''m'')"
    by blast
  then have mean: "spec_mean example_results ''m'' = 2"
    unfolding summary by (simp add: avg_key_def)
  have "''avg_z'' \<in> fst ` set summary"
    unfolding summary by simp
  with k have "\<exists>metric. ''avg_z'' = avg_key metric \<and> reporting example_results metric \<noteq> []"
    by blast
  with a r mean show ?thesis
    by blast
qed

end
